theory Spec2Isabelle
  imports Main "HOL-Library.AList" "HOL-Library.Char_ord" "HOL-Library.List_Lexorder"
    "HOL-Library.Sublist"
begin

section \<open>Values and documents\<close>

text \<open>
  A \<^verbatim>\<open>bson.M\<close> is a Go \<^verbatim>\<open>map[string]interface{}\<close>. The values a decoded change
  document holds are modelled by the fragment below; a nested document decodes to a
  \<^verbatim>\<open>bson.M\<close> again, so the type assertion \<^verbatim>\<open>.(bson.M)\<close> succeeds exactly on
  \<open>BDoc\<close> and \<^verbatim>\<open>.(string)\<close> exactly on \<open>BString\<close>. A document is an
  association list read with \<open>map_of\<close>; a Go map has one entry per key.
\<close>

datatype bval =
    BString string
  | BInt int
  | BBool bool
  | BNull
  | BArray "bval list"
  | BDoc "(string \<times> bval) list"

type_synonym bdoc = "(string \<times> bval) list"

type_synonym time = nat

text \<open>The assertions \<^verbatim>\<open>v.(string)\<close> and \<^verbatim>\<open>v.(bson.M)\<close> in their comma-ok form, applied to
  the result of a map read (a missing key reads as the nil interface, on which both fail).\<close>

fun assert_string :: "bval option \<Rightarrow> string option" where
  "assert_string (Some (BString s)) = Some s"
| "assert_string _ = None"

fun assert_doc :: "bval option \<Rightarrow> bdoc option" where
  "assert_doc (Some (BDoc d)) = Some d"
| "assert_doc _ = None"

subsection \<open>The verb \<^verbatim>\<open>%v\<close> of \<^verbatim>\<open>fmt.Sprintf\<close>\<close>

definition digit_char :: "nat \<Rightarrow> char" where
  "digit_char d = ''0123456789'' ! d"

function show_nat :: "nat \<Rightarrow> string" where
  "show_nat n = (if n < 10 then [digit_char n] else show_nat (n div 10) @ [digit_char (n mod 10)])"
  by pat_completeness auto
termination
  by (relation "measure id") auto

definition show_int :: "int \<Rightarrow> string" where
  "show_int i = (if i < 0 then CHR ''-'' # show_nat (nat (- i)) else show_nat (nat i))"

fun join_sp :: "string list \<Rightarrow> string" where
  "join_sp [] = []"
| "join_sp [s] = s"
| "join_sp (s # t # ss) = s @ '' '' @ join_sp (t # ss)"

text \<open>\<^verbatim>\<open>%v\<close> prints a string as it is, an integer in decimal, nil as \<^verbatim>\<open><nil>\<close>, a slice
  as \<^verbatim>\<open>[a b]\<close> and a map as \<^verbatim>\<open>map[k:v k:v]\<close> with its keys in increasing order.\<close>

fun sprintf_v :: "bval \<Rightarrow> string" where
  "sprintf_v (BString s) = s"
| "sprintf_v (BInt i) = show_int i"
| "sprintf_v (BBool b) = (if b then ''true'' else ''false'')"
| "sprintf_v BNull = ''<nil>''"
| "sprintf_v (BArray xs) = ''['' @ join_sp (map sprintf_v xs) @ '']''"
| "sprintf_v (BDoc kvs) =
     ''map['' @ join_sp (map snd (sort_key fst (map (\<lambda>(k, v). (k, k @ '':'' @ sprintf_v v)) kvs))) @ '']''"

section \<open>The pipeline event\<close>

text \<open>\<^verbatim>\<open>pipeline.Event\<close> as \<^verbatim>\<open>convertChangeEvent\<close> fills it. \<open>Data\<close> is a Go map, which may
  be nil: \<open>None\<close> is the nil map.\<close>

record Event =
  ID :: string
  Operation :: string
  Source :: string
  Database :: string
  Collection :: string
  Data :: "bdoc option"
  Timestamp :: time

section \<open>The MongoDB source\<close>

text \<open>The handle \<^verbatim>\<open>*mongo.Client\<close> points to a driver object that is connected or has
  been disconnected; \<open>client = None\<close> is the nil pointer of a source that never connected.\<close>

datatype client_state = ClientConnected | ClientDisconnected

record MongoDBSource =
  uri :: string
  database :: string
  collection :: string
  client :: "client_state option"

definition NewMongoDBSource :: "string \<Rightarrow> string \<Rightarrow> string \<Rightarrow> MongoDBSource" where
  "NewMongoDBSource u d c = \<lparr>uri = u, database = d, collection = c, client = None\<rparr>"

definition convertBSONToMap :: "bdoc \<Rightarrow> bdoc" where
  "convertBSONToMap doc = fold (\<lambda>(k, v) result. AList.update k v result) doc []"

text \<open>\<^verbatim>\<open>convertChangeEvent\<close>, statement by statement; \<open>now\<close> is the reading of
  \<^verbatim>\<open>time.Now()\<close>.\<close>

definition convertChangeEvent :: "MongoDBSource \<Rightarrow> time \<Rightarrow> bdoc \<Rightarrow> Event" where
  "convertChangeEvent m now changeDoc =
    (let event = \<lparr>ID = '''', Operation = '''', Source = ''mongodb'', Database = database m,
                   Collection = collection m, Data = None, Timestamp = now\<rparr>;
         event = (case map_of changeDoc ''_id'' of
                    Some i \<Rightarrow> event\<lparr>ID := sprintf_v i\<rparr>
                  | None \<Rightarrow> event);
         event = (case assert_string (map_of changeDoc ''operationType'') of
                    Some opType \<Rightarrow> event\<lparr>Operation := opType\<rparr>
                  | None \<Rightarrow> event);
         event = (case assert_doc (map_of changeDoc ''fullDocument'') of
                    Some fullDoc \<Rightarrow> event\<lparr>Data := Some (convertBSONToMap fullDoc)\<rparr>
                  | None \<Rightarrow> event);
         event = (case assert_doc (map_of changeDoc ''updateDescription'') of
                    Some updateDesc \<Rightarrow>
                      (case assert_doc (map_of updateDesc ''updatedFields'') of
                         Some updatedFields \<Rightarrow>
                           event\<lparr>Data := Some (fold (\<lambda>(k, v) d. AList.update k v d)
                                                    (convertBSONToMap updatedFields)
                                                    (case Data event of None \<Rightarrow> [] | Some d \<Rightarrow> d))\<rparr>
                       | None \<Rightarrow> event)
                  | None \<Rightarrow> event)
     in event)"

subsection \<open>Read\<close>

text \<open>
  What the driver hands to the goroutine of \<^verbatim>\<open>Read\<close>: \<^verbatim>\<open>collection.Watch\<close> fails with a
  message or opens a change stream. A stream is the list of turns of the loop (each a
  \<^verbatim>\<open>stream.Next\<close> that returned true, followed by a \<^verbatim>\<open>stream.Decode\<close> that failed or
  produced a change document, converted at the time given) and the answer of
  \<^verbatim>\<open>stream.Err()\<close> once \<^verbatim>\<open>Next\<close> returned false; a cancelled context ends the stream in
  this way.
\<close>

type_synonym error = string

datatype iteration = DecodeFails error | Decodes bdoc time

record change_stream =
  iterations :: "iteration list"
  stream_err :: "error option"

text \<open>The steps of the goroutine that another goroutine can observe.\<close>

datatype step =
    SendEvent Event
  | SendError error
  | StreamClose
  | CloseErrors
  | CloseEvents
  | Panic

fun is_send :: "step \<Rightarrow> bool" where
  "is_send (SendEvent _) = True"
| "is_send (SendError _) = True"
| "is_send _ = False"

text \<open>The body of \<^verbatim>\<open>for stream.Next(ctx) { ... }\<close>.\<close>

fun read_loop :: "MongoDBSource \<Rightarrow> iteration list \<Rightarrow> step list" where
  "read_loop m [] = []"
| "read_loop m (DecodeFails err # rest) =
     SendError (''failed to decode change event: '' @ err) # read_loop m rest"
| "read_loop m (Decodes changeDoc now # rest) =
     SendEvent (convertChangeEvent m now changeDoc) # read_loop m rest"

text \<open>
  The goroutine in program order. The deferred calls run last first: \<^verbatim>\<open>stream.Close\<close>
  (deferred only once the stream exists), then \<^verbatim>\<open>close(errors)\<close>, then
  \<^verbatim>\<open>close(events)\<close>. On a source that never connected, \<^verbatim>\<open>m.client.Database\<close>
  dereferences the nil client and panics; the deferred closes still run.
\<close>

definition Read_goroutine :: "MongoDBSource \<Rightarrow> error + change_stream \<Rightarrow> step list" where
  "Read_goroutine m watch =
    (case client m of
       None \<Rightarrow> [Panic, CloseErrors, CloseEvents]
     | Some c \<Rightarrow>
        (case watch of
           Inl err \<Rightarrow>
             [SendError (''failed to create change stream: '' @ err), CloseErrors, CloseEvents]
         | Inr stream \<Rightarrow>
             read_loop m (iterations stream)
             @ (case stream_err stream of
                  Some err \<Rightarrow> [SendError (''change stream error: '' @ err)]
                | None \<Rightarrow> [])
             @ [StreamClose, CloseErrors, CloseEvents]))"

text \<open>
  Both channels are unbuffered, and every send is a plain \<^verbatim>\<open>ch <- v\<close> (no
  \<^verbatim>\<open>select\<close> on \<^verbatim>\<open>ctx.Done()\<close>): a send returns only when the consumer receives the
  value. \<open>run_steps n\<close> runs the steps against a consumer that receives \<open>n\<close> values and
  then stops receiving; the goroutine then stays blocked in its next send. The result is the
  steps that happened and whether the goroutine is blocked for ever.
\<close>

fun run_steps :: "nat \<Rightarrow> step list \<Rightarrow> step list \<times> bool" where
  "run_steps n [] = ([], False)"
| "run_steps n (s # ss) =
     (if is_send s then
        (case n of
           0 \<Rightarrow> ([], True)
         | Suc k \<Rightarrow> (s # fst (run_steps k ss), snd (run_steps k ss)))
      else (s # fst (run_steps n ss), snd (run_steps n ss)))"

definition Read :: "MongoDBSource \<Rightarrow> error + change_stream \<Rightarrow> nat \<Rightarrow> step list \<times> bool" where
  "Read m watch n = run_steps n (Read_goroutine m watch)"

subsection \<open>Close\<close>

text \<open>
  \<^verbatim>\<open>Close\<close> calls \<^verbatim>\<open>m.client.Disconnect\<close> when the client is not nil and returns its
  error; it never resets \<^verbatim>\<open>m.client\<close>. \<open>Disconnect\<close> is the driver's method: it
  returns an error or nil and leaves the client object in a new state.
\<close>

definition Close ::
  "(client_state \<Rightarrow> error option \<times> client_state) \<Rightarrow> MongoDBSource \<Rightarrow> error option \<times> MongoDBSource" where
  "Close Disconnect m =
    (case client m of
       Some c \<Rightarrow> (fst (Disconnect c), m\<lparr>client := Some (snd (Disconnect c))\<rparr>)
     | None \<Rightarrow> (None, m))"

text \<open>The driver's \<^verbatim>\<open>Client.Disconnect\<close>: it succeeds once, and answers
  \<^verbatim>\<open>ErrClientDisconnected\<close> on a client that is disconnected already.\<close>

definition mongo_Disconnect :: "client_state \<Rightarrow> error option \<times> client_state" where
  "mongo_Disconnect c =
    (case c of
       ClientConnected \<Rightarrow> (None, ClientDisconnected)
     | ClientDisconnected \<Rightarrow> (Some ''client is disconnected'', ClientDisconnected))"

section \<open>Configuration\<close>

text \<open>A settings map is a \<^verbatim>\<open>map[string]interface{}\<close> filled by \<^verbatim>\<open>json.Unmarshal\<close>: its
  values are strings, numbers (\<^verbatim>\<open>float64\<close>), booleans, nil, slices and maps.\<close>

typedecl float64

datatype jval =
    JString string
  | JNumber float64
  | JBool bool
  | JNull
  | JArray "jval list"
  | JObject "(string \<times> jval) list"

record SourceConfig =
  Type :: string
  Settings :: "(string \<times> jval) list"

record SinkConfig =
  Type :: string
  Settings :: "(string \<times> jval) list"

definition SourceConfig_GetString :: "SourceConfig \<Rightarrow> string \<Rightarrow> string" where
  "SourceConfig_GetString s key =
    (case map_of (SourceConfig.Settings s) key of
       Some (JString val) \<Rightarrow> val
     | _ \<Rightarrow> '''')"

definition SinkConfig_GetString :: "SinkConfig \<Rightarrow> string \<Rightarrow> string" where
  "SinkConfig_GetString s key =
    (case map_of (SinkConfig.Settings s) key of
       Some (JString val) \<Rightarrow> val
     | _ \<Rightarrow> '''')"

section \<open>The field mapper\<close>



















section \<open>The batching upsert sink\<close>

text \<open>Modelled from the spec: the sink package (\<^verbatim>\<open>sink.NewPostgreSQLSink\<close> and its write
  path) is called by \<^verbatim>\<open>main\<close> but is not among the sources. A row of the target store maps
  column names to values.\<close>

type_synonym row = "string \<rightharpoonup> bval"

text \<open>Modelled from the spec: the target store holds at most one row per entity id, the
  uniqueness key.\<close>

type_synonym target = "string \<rightharpoonup> row"

text \<open>Modelled from the spec: the keys of an event's \<open>data\<close> map directly to columns; a nil
  \<open>data\<close> has none.\<close>

definition data_map :: "Event \<Rightarrow> row" where
  "data_map e = (case Data e of None \<Rightarrow> Map.empty | Some d \<Rightarrow> map_of d)"

text \<open>Modelled from the spec: the operations of the upsert group.\<close>

definition is_upsert :: "Event \<Rightarrow> bool" where
  "is_upsert e = (Operation e \<in> set [''insert'', ''update'', ''replace''])"

text \<open>Modelled from the spec: the operation of the delete group.\<close>

definition is_delete :: "Event \<Rightarrow> bool" where
  "is_delete e = (Operation e = ''delete'')"

text \<open>Modelled from the spec: the upsert of one event. If a row with the id exists, the
  columns present in \<open>data\<close> are overwritten and the others left untouched; if not, a new row
  with \<open>data\<close> is inserted under the id.\<close>

definition upsert :: "target \<Rightarrow> Event \<Rightarrow> target" where
  "upsert t e =
    (case t (ID e) of
       Some r \<Rightarrow> t(ID e \<mapsto> r ++ data_map e)
     | None \<Rightarrow> t(ID e \<mapsto> data_map e))"

text \<open>Modelled from the spec: a delete removes the row by id.\<close>

definition delete_row :: "target \<Rightarrow> Event \<Rightarrow> target" where
  "delete_row t e = t(ID e := None)"

text \<open>Modelled from the spec: the upsert group of a batch, in batch order.\<close>

definition upsert_group :: "Event list \<Rightarrow> Event list" where
  "upsert_group batch = filter is_upsert batch"

text \<open>Modelled from the spec: the delete group of a batch, in batch order.\<close>

definition delete_group :: "Event list \<Rightarrow> Event list" where
  "delete_group batch = filter is_delete batch"

text \<open>Modelled from the spec: a flush whose writes succeed (retries and unknown columns are
  outside). The upsert group is written first; the delete group is applied by id after it.\<close>

definition flush :: "target \<Rightarrow> Event list \<Rightarrow> target" where
  "flush t batch =
    fold (\<lambda>e t. delete_row t e) (delete_group batch)
      (fold (\<lambda>e t. upsert t e) (upsert_group batch) t)"

section \<open>The pipeline orchestrator\<close>

text \<open>Modelled from the spec: the pipeline package (\<^verbatim>\<open>pipeline.New\<close>, \<^verbatim>\<open>Run\<close>) is called by
  \<^verbatim>\<open>main\<close> but is not among the sources. The adapters are given by what their calls answer
  in one run: the two \<^verbatim>\<open>Connect\<close> results, an unrecoverable condition signalled while
  events flow, and whether the drain ends within the grace period.\<close>

record adapters =
  source_connect :: "error option"
  sink_connect :: "error option"
  runtime_failure :: "error option"
  drained_in_time :: bool

text \<open>Modelled from the spec: the calls of the source and sink adapter contracts.
  \<open>SourceRead\<close> asks the source to stream, \<open>SinkWrite\<close> hands the sink its intake.\<close>

datatype adapter_call =
    SourceConnect
  | SinkConnect
  | SourceRead
  | SinkWrite
  | SinkClose
  | SourceClose

text \<open>Modelled from the spec: the terminal errors of a run (fatal connect error, fatal
  runtime error, shutdown timeout).\<close>

datatype run_error =
    FatalConnectError error
  | FatalRuntimeError error
  | ShutdownTimeout

text \<open>Modelled from the spec: \<^verbatim>\<open>Run\<close> connects the source, then the sink; either failure is
  fatal and aborts the run. Otherwise it asks the source to stream and the sink to write,
  and ends in one of the terminal states. The result is \<open>None\<close> for a clean stop, with the
  adapter calls made, in order.\<close>

definition Run :: "adapters \<Rightarrow> run_error option \<times> adapter_call list" where
  "Run a =
    (case source_connect a of
       Some err \<Rightarrow> (Some (FatalConnectError err), [SourceConnect])
     | None \<Rightarrow>
        (case sink_connect a of
           Some err \<Rightarrow> (Some (FatalConnectError err), [SourceConnect, SinkConnect])
         | None \<Rightarrow>
            (case runtime_failure a of
               Some err \<Rightarrow>
                 (Some (FatalRuntimeError err),
                  [SourceConnect, SinkConnect, SourceRead, SinkWrite, SinkClose, SourceClose])
             | None \<Rightarrow>
                 (if drained_in_time a
                  then (None, [SourceConnect, SinkConnect, SourceRead, SinkWrite, SinkClose, SourceClose])
                  else (Some ShutdownTimeout, [SourceConnect, SinkConnect, SourceRead, SinkWrite])))))"

section \<open>Concrete inputs\<close>

definition example_source_config :: SourceConfig where
  "example_source_config =
     \<lparr>SourceConfig.Type = ''mongodb'',
      SourceConfig.Settings = [(''uri'', JString ''mongodb://localhost:27017''), (''tls'', JBool True)]\<rparr>"

definition example_sink_config :: SinkConfig where
  "example_sink_config =
     \<lparr>SinkConfig.Type = ''postgresql'',
      SinkConfig.Settings = [(''table'', JString ''users''), (''batch'', JNull)]\<rparr>"

definition connected_source :: MongoDBSource where
  "connected_source =
     (NewMongoDBSource ''mongodb://localhost:27017'' ''mydb'' ''users'')\<lparr>client := Some ClientConnected\<rparr>"

text \<open>The change event of an insert as the server sends it: the event's own \<^verbatim>\<open>_id\<close> is the
  resume token, the inserted document and its key are under \<^verbatim>\<open>fullDocument\<close> and
  \<^verbatim>\<open>documentKey\<close>.\<close>

definition insert_change_doc :: bdoc where
  "insert_change_doc =
    [(''_id'', BDoc [(''_data'', BString ''8265A1B2C3'')]),
     (''operationType'', BString ''insert''),
     (''documentKey'', BDoc [(''_id'', BString ''u1'')]),
     (''fullDocument'', BDoc [(''_id'', BString ''u1''), (''name'', BString ''Ann'')])]"

text \<open>An update that only removes a field, of a document that was deleted before the server
  looked it up (\<^verbatim>\<open>fullDocument\<close> is null, no field is updated); and the notification of a
  dropped collection.\<close>

definition unset_change_doc :: bdoc where
  "unset_change_doc =
    [(''_id'', BDoc [(''_data'', BString ''8265A1B2C4'')]),
     (''operationType'', BString ''update''),
     (''documentKey'', BDoc [(''_id'', BString ''u1'')]),
     (''fullDocument'', BNull),
     (''updateDescription'',
        BDoc [(''updatedFields'', BDoc []), (''removedFields'', BArray [BString ''name''])])]"

definition drop_change_doc :: bdoc where
  "drop_change_doc =
    [(''_id'', BDoc [(''_data'', BString ''8265A1B2C5'')]),
     (''operationType'', BString ''drop'')]"

text \<open>Whether an event carries at least one field.\<close>

definition data_nonempty :: "Event \<Rightarrow> bool" where
  "data_nonempty e = (case Data e of None \<Rightarrow> False | Some d \<Rightarrow> d \<noteq> [])"

text \<open>A stream that delivers a document and a decoding failure and then ends; a stream that
  ends at once because the context was cancelled.\<close>

definition two_turn_stream :: change_stream where
  "two_turn_stream =
     \<lparr>iterations = [Decodes insert_change_doc 0, DecodeFails ''EOF''], stream_err = None\<rparr>"

definition cancelled_stream :: change_stream where
  "cancelled_stream = \<lparr>iterations = [], stream_err = Some ''context canceled''\<rparr>"

text \<open>The scenarios of the specification: a batch of three events for the id 42, an insert,
  and a field mapper with one rule applied to an event with two fields.\<close>

definition scenario_batch :: "Event list" where
  "scenario_batch =
    [\<lparr>ID = ''42'', Operation = ''insert'', Source = ''mongodb'', Database = ''mydb'',
      Collection = ''users'', Data = Some [(''x'', BInt 1)], Timestamp = 0\<rparr>,
     \<lparr>ID = ''42'', Operation = ''update'', Source = ''mongodb'', Database = ''mydb'',
      Collection = ''users'', Data = Some [(''y'', BInt 2)], Timestamp = 1\<rparr>,
     \<lparr>ID = ''42'', Operation = ''delete'', Source = ''mongodb'', Database = ''mydb'',
      Collection = ''users'', Data = None, Timestamp = 2\<rparr>]"

definition scenario_insert :: Event where
  "scenario_insert =
    \<lparr>ID = ''42'', Operation = ''insert'', Source = ''mongodb'', Database = ''mydb'',
     Collection = ''users'', Data = Some [(''x'', BInt 1)], Timestamp = 0\<rparr>"

definition scenario_target :: target where
  "scenario_target = [''42'' \<mapsto> [''z'' \<mapsto> BInt 0]]"







definition sink_refuses :: adapters where
  "sink_refuses =
    \<lparr>source_connect = None, sink_connect = Some ''connection refused'',
     runtime_failure = None, drained_in_time = True\<rparr>"

section \<open>Configuration: \<^verbatim>\<open>GetString\<close>\<close>

text \<open>C10. For every settings map and key, \<^verbatim>\<open>SourceConfig.GetString\<close> and
  \<^verbatim>\<open>SinkConfig.GetString\<close> return the stored value when the key holds a string, and the
  empty string when the key is absent or holds a value that is not a string. Neither has a
  failing branch: the comma-ok assertion and the read of a (possibly nil) map cannot panic.\<close>

theorem GetString_total:
  "(map_of (SourceConfig.Settings s) key = Some (JString v) \<longrightarrow> SourceConfig_GetString s key = v)
 \<and> (map_of (SourceConfig.Settings s) key = None \<longrightarrow> SourceConfig_GetString s key = '''')
 \<and> ((\<forall>w. map_of (SourceConfig.Settings s) key \<noteq> Some (JString w)) \<longrightarrow> SourceConfig_GetString s key = '''')
 \<and> (map_of (SinkConfig.Settings k) key = Some (JString v) \<longrightarrow> SinkConfig_GetString k key = v)
 \<and> (map_of (SinkConfig.Settings k) key = None \<longrightarrow> SinkConfig_GetString k key = '''')
 \<and> ((\<forall>w. map_of (SinkConfig.Settings k) key \<noteq> Some (JString w)) \<longrightarrow> SinkConfig_GetString k key = '''')"
  by (auto simp: SourceConfig_GetString_def SinkConfig_GetString_def split: option.splits jval.splits)

theorem GetString_total_witness:
  "SourceConfig_GetString example_source_config ''uri'' = ''mongodb://localhost:27017''
 \<and> SourceConfig_GetString example_source_config ''database'' = ''''
 \<and> SourceConfig_GetString example_source_config ''tls'' = ''''
 \<and> SinkConfig_GetString example_sink_config ''table'' = ''users''
 \<and> SinkConfig_GetString example_sink_config ''database'' = ''''
 \<and> SinkConfig_GetString example_sink_config ''batch'' = ''''"
  using GetString_total [of example_source_config "''uri''" "''mongodb://localhost:27017''" example_sink_config]
    GetString_total [of example_source_config "''database''" "''''" example_sink_config]
    GetString_total [of example_source_config "''tls''" "''''" example_sink_config]
    GetString_total [of example_source_config "''table''" "''users''" example_sink_config]
    GetString_total [of example_source_config "''batch''" "''''" example_sink_config]
  by (simp add: example_source_config_def example_sink_config_def)

section \<open>The MongoDB source: \<^verbatim>\<open>Close\<close>\<close>

text \<open>C8, as amended. On a source that never connected, \<^verbatim>\<open>Close\<close> returns nil and changes
  nothing, so a second call repeats the first. On a source with a client, \<^verbatim>\<open>Close\<close> returns
  what the driver's \<^verbatim>\<open>Disconnect\<close> returns and keeps the client, so the second call asks the
  driver again, on the client as the first call left it.\<close>

theorem Close_twice:
  "(client m = None \<longrightarrow> Close D m = (None, m) \<and> Close D (snd (Close D m)) = Close D m)
 \<and> (client m = Some c \<longrightarrow>
      Close D m = (fst (D c), m\<lparr>client := Some (snd (D c))\<rparr>)
    \<and> Close D (snd (Close D m)) = (fst (D (snd (D c))), m\<lparr>client := Some (snd (D (snd (D c))))\<rparr>))"
  by (simp add: Close_def)

theorem Close_twice_witness:
  "Close mongo_Disconnect (NewMongoDBSource ''mongodb://localhost:27017'' ''mydb'' ''users'')
     = (None, NewMongoDBSource ''mongodb://localhost:27017'' ''mydb'' ''users'')
 \<and> Close mongo_Disconnect (snd (Close mongo_Disconnect connected_source))
     = (Some ''client is disconnected'', connected_source\<lparr>client := Some ClientDisconnected\<rparr>)"
proof -
  let ?m = "NewMongoDBSource ''mongodb://localhost:27017'' ''mydb'' ''users''"
  have never: "client ?m = None"
    by (simp add: NewMongoDBSource_def)
  have conn: "client connected_source = Some ClientConnected"
    by (simp add: connected_source_def)
  have first: "Close mongo_Disconnect ?m = (None, ?m)"
    using Close_twice [of ?m mongo_Disconnect] never by blast
  have second: "Close mongo_Disconnect (snd (Close mongo_Disconnect connected_source))
      = (fst (mongo_Disconnect (snd (mongo_Disconnect ClientConnected))),
         connected_source\<lparr>client := Some (snd (mongo_Disconnect (snd (mongo_Disconnect ClientConnected))))\<rparr>)"
    using Close_twice [of connected_source mongo_Disconnect ClientConnected] conn by blast
  show ?thesis
    using first second by (simp add: mongo_Disconnect_def)
qed

text \<open>The claim as stated fails on a connected source: the first \<^verbatim>\<open>Close\<close> succeeds, the
  second returns the driver's error for a client that is disconnected already.\<close>

theorem Close_not_idempotent:
  "fst (Close mongo_Disconnect connected_source) = None
 \<and> fst (Close mongo_Disconnect (snd (Close mongo_Disconnect connected_source)))
     = Some ''client is disconnected''"
  by (simp add: Close_def connected_source_def mongo_Disconnect_def NewMongoDBSource_def)

section \<open>The MongoDB source: \<^verbatim>\<open>convertChangeEvent\<close>\<close>

text \<open>C1. The event's id is the \<^verbatim>\<open>%v\<close> print of the change document's own top-level
  \<^verbatim>\<open>_id\<close>, and empty without one; nothing under \<^verbatim>\<open>documentKey\<close> or \<^verbatim>\<open>fullDocument\<close> is
  read for it. At the change event of an insert this is the print of the resume token, not the
  \<^verbatim>\<open>_id\<close> of the inserted document, which the event carries in its data.\<close>

theorem convertChangeEvent_id_of_insert:
  "ID (convertChangeEvent m now changeDoc)
     = (case map_of changeDoc ''_id'' of Some i \<Rightarrow> sprintf_v i | None \<Rightarrow> [])
 \<and> ID (convertChangeEvent m now insert_change_doc) = ''map[_data:8265A1B2C3]''
 \<and> Data (convertChangeEvent m now insert_change_doc)
     = Some [(''_id'', BString ''u1''), (''name'', BString ''Ann'')]
 \<and> sprintf_v (BString ''u1'') = ''u1''"
proof (intro conjI)
  show "ID (convertChangeEvent m now changeDoc)
     = (case map_of changeDoc ''_id'' of Some i \<Rightarrow> sprintf_v i | None \<Rightarrow> [])"
    by (simp add: convertChangeEvent_def Let_def split: option.splits)
  show "ID (convertChangeEvent m now insert_change_doc) = ''map[_data:8265A1B2C3]''"
    by (simp add: convertChangeEvent_def insert_change_doc_def)
  show "Data (convertChangeEvent m now insert_change_doc)
     = Some [(''_id'', BString ''u1''), (''name'', BString ''Ann'')]"
    by (simp add: convertChangeEvent_def insert_change_doc_def convertBSONToMap_def)
  show "sprintf_v (BString ''u1'') = ''u1''"
    by simp
qed

text \<open>C2, as amended. \<^verbatim>\<open>convertChangeEvent\<close> has no error result: the event's operation is
  the change document's \<^verbatim>\<open>operationType\<close> as it stands when that is a string, whatever the
  string, and the empty string otherwise; \<^verbatim>\<open>Read\<close> sends the event of every decoded
  document on the events channel, and the only errors its loop sends are decoding failures.\<close>

theorem convertChangeEvent_operation_verbatim:
  "(map_of changeDoc ''operationType'' = Some (BString opType) \<longrightarrow>
      Operation (convertChangeEvent m now changeDoc) = opType)
 \<and> ((\<forall>s. map_of changeDoc ''operationType'' \<noteq> Some (BString s)) \<longrightarrow>
      Operation (convertChangeEvent m now changeDoc) = '''')
 \<and> (client m \<noteq> None \<and> Decodes changeDoc now \<in> set (iterations stream) \<longrightarrow>
      SendEvent (convertChangeEvent m now changeDoc) \<in> set (Read_goroutine m (Inr stream)))
 \<and> (SendError e \<in> set (read_loop m (iterations stream)) \<longrightarrow>
      (\<exists>err. DecodeFails err \<in> set (iterations stream) \<and> e = ''failed to decode change event: '' @ err))"
proof (intro conjI impI)
  assume "map_of changeDoc ''operationType'' = Some (BString opType)"
  then show "Operation (convertChangeEvent m now changeDoc) = opType"
    by (simp add: convertChangeEvent_def Let_def split: option.splits)
next
  assume "\<forall>s. map_of changeDoc ''operationType'' \<noteq> Some (BString s)"
  then have "assert_string (map_of changeDoc ''operationType'') = None"
    by (cases "map_of changeDoc ''operationType''" rule: assert_string.cases) auto
  then show "Operation (convertChangeEvent m now changeDoc) = ''''"
    by (simp add: convertChangeEvent_def Let_def split: option.splits)
next
  assume a: "client m \<noteq> None \<and> Decodes changeDoc now \<in> set (iterations stream)"
  have "Decodes changeDoc now \<in> set its \<Longrightarrow>
      SendEvent (convertChangeEvent m now changeDoc) \<in> set (read_loop m its)" for its
    by (induction m its rule: read_loop.induct) auto
  with a show "SendEvent (convertChangeEvent m now changeDoc) \<in> set (Read_goroutine m (Inr stream))"
    by (auto simp: Read_goroutine_def)
next
  assume "SendError e \<in> set (read_loop m (iterations stream))"
  moreover have "SendError e \<in> set (read_loop m its) \<Longrightarrow>
      \<exists>err. DecodeFails err \<in> set its \<and> e = ''failed to decode change event: '' @ err" for its
    by (induction m its rule: read_loop.induct) auto
  ultimately show "\<exists>err. DecodeFails err \<in> set (iterations stream)
      \<and> e = ''failed to decode change event: '' @ err"
    by blast
qed

theorem convertChangeEvent_operation_verbatim_witness:
  "Operation (convertChangeEvent connected_source 0 drop_change_doc) = ''drop''
 \<and> SendEvent (convertChangeEvent connected_source 0 drop_change_doc)
      \<in> set (Read_goroutine connected_source
                (Inr \<lparr>iterations = [Decodes drop_change_doc 0], stream_err = None\<rparr>))"
proof -
  have op: "map_of drop_change_doc ''operationType'' = Some (BString ''drop'')"
    by (simp add: drop_change_doc_def)
  have conn: "client connected_source \<noteq> None
      \<and> Decodes drop_change_doc 0
          \<in> set (iterations \<lparr>iterations = [Decodes drop_change_doc 0], stream_err = None\<rparr>)"
    by (simp add: connected_source_def)
  show ?thesis
    using convertChangeEvent_operation_verbatim
      [of drop_change_doc "''drop''" connected_source 0
          "\<lparr>iterations = [Decodes drop_change_doc 0], stream_err = None\<rparr>"]
      op conn
    by blast
qed

text \<open>The claim as stated fails: the notification of a dropped collection becomes an event with
  the operation \<^verbatim>\<open>drop\<close>, sent on the events channel, and no error is sent.\<close>

theorem Read_forwards_drop_event:
  "Read connected_source (Inr \<lparr>iterations = [Decodes drop_change_doc 0], stream_err = None\<rparr>) 1
    = ([SendEvent \<lparr>ID = ''map[_data:8265A1B2C5]'', Operation = ''drop'', Source = ''mongodb'',
                    Database = ''mydb'', Collection = ''users'', Data = None, Timestamp = 0\<rparr>,
        StreamClose, CloseErrors, CloseEvents], False)"
  by (simp add: Read_def Read_goroutine_def connected_source_def NewMongoDBSource_def
        convertChangeEvent_def drop_change_doc_def)

text \<open>Lemmas on the data of an event.\<close>

lemma fold_update_Nil:
  "fold (\<lambda>(k, v) d. AList.update k v d) xs acc = [] \<longleftrightarrow> xs = [] \<and> acc = []"
proof (induction xs arbitrary: acc)
  case Nil
  show ?case by simp
next
  case (Cons x xs)
  obtain k v where x: "x = (k, v)" by (cases x)
  show ?case
    using Cons.IH [of "AList.update k v acc"] by (simp add: x)
qed

lemma convertBSONToMap_Nil: "convertBSONToMap doc = [] \<longleftrightarrow> doc = []"
  by (simp add: convertBSONToMap_def fold_update_Nil)

text \<open>C9, as amended. The data of a converted event is non-empty exactly when the change
  document has a non-empty \<^verbatim>\<open>fullDocument\<close> or a non-empty
  \<^verbatim>\<open>updateDescription.updatedFields\<close>, whatever its operation.\<close>

theorem convertChangeEvent_data_nonempty:
  "data_nonempty (convertChangeEvent m now changeDoc) \<longleftrightarrow>
     (\<exists>fullDoc. assert_doc (map_of changeDoc ''fullDocument'') = Some fullDoc \<and> fullDoc \<noteq> [])
   \<or> (\<exists>updateDesc updatedFields.
         assert_doc (map_of changeDoc ''updateDescription'') = Some updateDesc
       \<and> assert_doc (map_of updateDesc ''updatedFields'') = Some updatedFields
       \<and> updatedFields \<noteq> [])"
  by (auto simp: data_nonempty_def convertChangeEvent_def Let_def fold_update_Nil convertBSONToMap_Nil
           split: option.splits)

theorem convertChangeEvent_data_nonempty_witness:
  "data_nonempty (convertChangeEvent connected_source 0 insert_change_doc)
 \<and> \<not> data_nonempty (convertChangeEvent connected_source 0 unset_change_doc)"
  using convertChangeEvent_data_nonempty [of connected_source 0 insert_change_doc]
    convertChangeEvent_data_nonempty [of connected_source 0 unset_change_doc]
  by (simp add: insert_change_doc_def unset_change_doc_def)

text \<open>The claim as stated fails: an update that only removes a field, with a null
  \<^verbatim>\<open>fullDocument\<close>, becomes an event of operation \<^verbatim>\<open>update\<close> with empty data, and
  \<^verbatim>\<open>Read\<close> sends it on.\<close>

theorem Read_forwards_update_without_data:
  "Read connected_source (Inr \<lparr>iterations = [Decodes unset_change_doc 0], stream_err = None\<rparr>) 1
    = ([SendEvent \<lparr>ID = ''map[_data:8265A1B2C4]'', Operation = ''update'', Source = ''mongodb'',
                    Database = ''mydb'', Collection = ''users'', Data = Some [], Timestamp = 0\<rparr>,
        StreamClose, CloseErrors, CloseEvents], False)"
  by (simp add: Read_def Read_goroutine_def connected_source_def NewMongoDBSource_def
        convertChangeEvent_def unset_change_doc_def convertBSONToMap_def)


section \<open>The MongoDB source: \<^verbatim>\<open>Read\<close>\<close>

lemma run_steps_enough:
  "length (filter is_send ss) \<le> n \<Longrightarrow> run_steps n ss = (ss, False)"
  by (induction ss arbitrary: n) (auto split: nat.splits)

lemma run_steps_subset: "set (fst (run_steps n ss)) \<subseteq> set ss"
  by (induction ss arbitrary: n) (auto split: nat.splits)

lemma run_steps_blocked_append:
  "n < length (filter is_send xs) \<Longrightarrow> run_steps n (xs @ ys) = run_steps n xs"
  by (induction xs arbitrary: n) (auto split: nat.splits)

lemma run_steps_blocked:
  "n < length (filter is_send ss) \<Longrightarrow> snd (run_steps n ss)"
  by (induction ss arbitrary: n) (auto split: nat.splits)

lemma read_loop_no_close: "CloseErrors \<notin> set (read_loop m its) \<and> CloseEvents \<notin> set (read_loop m its)"
  by (induction m its rule: read_loop.induct) auto

lemma Read_goroutine_shape:
  "\<exists>pre. Read_goroutine m w = pre @ [CloseErrors, CloseEvents]
      \<and> CloseErrors \<notin> set pre \<and> CloseEvents \<notin> set pre"
  by (auto simp: Read_goroutine_def read_loop_no_close split: option.splits sum.splits)

text \<open>C7, as amended. When the consumer receives every value the goroutine sends, the
  goroutine ends by closing the errors channel and then the events channel, one right after
  the other, and nothing is sent or closed before or after in any other order. When the
  consumer stops receiving earlier, the goroutine stays blocked in a send and neither channel
  is ever closed.\<close>

theorem Read_closes_together:
  "(length (filter is_send (Read_goroutine m w)) \<le> n \<longrightarrow>
      (\<exists>pre. Read m w n = (pre @ [CloseErrors, CloseEvents], False)
           \<and> CloseErrors \<notin> set pre \<and> CloseEvents \<notin> set pre))
 \<and> (n < length (filter is_send (Read_goroutine m w)) \<longrightarrow>
      snd (Read m w n)
    \<and> CloseErrors \<notin> set (fst (Read m w n)) \<and> CloseEvents \<notin> set (fst (Read m w n)))"
proof (intro conjI impI)
  assume enough: "length (filter is_send (Read_goroutine m w)) \<le> n"
  obtain pre where pre: "Read_goroutine m w = pre @ [CloseErrors, CloseEvents]"
      "CloseErrors \<notin> set pre" "CloseEvents \<notin> set pre"
    using Read_goroutine_shape by blast
  have "Read m w n = (Read_goroutine m w, False)"
    unfolding Read_def using enough by (rule run_steps_enough)
  with pre show "\<exists>pre. Read m w n = (pre @ [CloseErrors, CloseEvents], False)
           \<and> CloseErrors \<notin> set pre \<and> CloseEvents \<notin> set pre"
    by auto
next
  assume short: "n < length (filter is_send (Read_goroutine m w))"
  obtain pre where pre: "Read_goroutine m w = pre @ [CloseErrors, CloseEvents]"
      "CloseErrors \<notin> set pre" "CloseEvents \<notin> set pre"
    using Read_goroutine_shape by blast
  from short pre(1) have inside: "n < length (filter is_send pre)"
    by simp
  then have eq: "Read m w n = run_steps n pre"
    by (simp add: Read_def pre(1) run_steps_blocked_append)
  show "snd (Read m w n)"
    using eq inside by (simp add: run_steps_blocked)
  show "CloseErrors \<notin> set (fst (Read m w n))"
    using eq pre(2) run_steps_subset [of n pre] by auto
  show "CloseEvents \<notin> set (fst (Read m w n))"
    using eq pre(3) run_steps_subset [of n pre] by auto
qed


theorem Read_closes_together_witness:
  "(\<exists>pre. Read connected_source (Inr two_turn_stream) 2 = (pre @ [CloseErrors, CloseEvents], False)
        \<and> CloseErrors \<notin> set pre \<and> CloseEvents \<notin> set pre)
 \<and> snd (Read connected_source (Inr two_turn_stream) 1)
 \<and> CloseErrors \<notin> set (fst (Read connected_source (Inr two_turn_stream) 1))
 \<and> CloseEvents \<notin> set (fst (Read connected_source (Inr two_turn_stream) 1))"
proof -
  have sends: "length (filter is_send (Read_goroutine connected_source (Inr two_turn_stream))) = 2"
    by (simp add: Read_goroutine_def connected_source_def two_turn_stream_def)
  show ?thesis
    using Read_closes_together [of connected_source "Inr two_turn_stream" 2]
      Read_closes_together [of connected_source "Inr two_turn_stream" 1] sends
    by simp
qed

text \<open>The claim as stated fails: the context is cancelled and the consumer receives nothing
  more; the goroutine blocks sending the stream's error and closes neither channel.\<close>

theorem Read_blocked_after_cancel:
  "Read connected_source (Inr cancelled_stream) 0 = ([], True)"
  by (simp add: Read_def Read_goroutine_def connected_source_def cancelled_stream_def)

section \<open>The batching upsert sink\<close>

lemma fold_delete_row_keeps_None:
  "t k = None \<Longrightarrow> fold (\<lambda>e t. delete_row t e) ds t k = None"
  by (induction ds arbitrary: t) (auto simp: delete_row_def)

lemma fold_delete_row_None:
  "e \<in> set ds \<Longrightarrow> ID e = k \<Longrightarrow> fold (\<lambda>e t. delete_row t e) ds t k = None"
proof (induction ds arbitrary: t)
  case Nil
  then show ?case by simp
next
  case (Cons d ds)
  show ?case
  proof (cases "ID d = k")
    case True
    then have "delete_row t d k = None"
      by (simp add: delete_row_def)
    then show ?thesis
      by (simp add: fold_delete_row_keeps_None)
  next
    case False
    with Cons.prems have "e \<in> set ds" by auto
    then show ?thesis
      using Cons.IH Cons.prems(2) by simp
  qed
qed

lemma flush_deleted_id_absent:
  "e \<in> set batch \<Longrightarrow> is_delete e \<Longrightarrow> flush t batch (ID e) = None"
  by (simp add: flush_def delete_group_def fold_delete_row_None)

text \<open>C3. A flush applies the delete group after the upsert group; each group is the batch
  filtered by operation, so it keeps the batch order; and every id that has an upsert followed
  by a delete in the batch has no row in the target after the flush.\<close>

theorem flush_delete_after_upsert:
  "flush t batch
     = fold (\<lambda>e t. delete_row t e) (filter is_delete batch)
         (fold (\<lambda>e t. upsert t e) (filter is_upsert batch) t)
 \<and> subseq (upsert_group batch) batch
 \<and> subseq (delete_group batch) batch
 \<and> ((\<exists>i j. i < j \<and> j < length batch
          \<and> is_upsert (batch ! i) \<and> ID (batch ! i) = k
          \<and> is_delete (batch ! j) \<and> ID (batch ! j) = k)
      \<longrightarrow> flush t batch k = None)"
proof (intro conjI impI)
  show "flush t batch
     = fold (\<lambda>e t. delete_row t e) (filter is_delete batch)
         (fold (\<lambda>e t. upsert t e) (filter is_upsert batch) t)"
    by (simp add: flush_def upsert_group_def delete_group_def)
  show "subseq (upsert_group batch) batch"
    by (simp add: upsert_group_def)
  show "subseq (delete_group batch) batch"
    by (simp add: delete_group_def)
  assume "\<exists>i j. i < j \<and> j < length batch
          \<and> is_upsert (batch ! i) \<and> ID (batch ! i) = k
          \<and> is_delete (batch ! j) \<and> ID (batch ! j) = k"
  then obtain j where j: "j < length batch" "is_delete (batch ! j)" "ID (batch ! j) = k"
    by blast
  then have "batch ! j \<in> set batch"
    by simp
  then show "flush t batch k = None"
    using flush_deleted_id_absent [of "batch ! j" batch t] j by simp
qed

theorem flush_delete_after_upsert_witness:
  "flush Map.empty scenario_batch ''42'' = None"
proof -
  have "\<exists>i j. i < j \<and> j < length scenario_batch
          \<and> is_upsert (scenario_batch ! i) \<and> ID (scenario_batch ! i) = ''42''
          \<and> is_delete (scenario_batch ! j) \<and> ID (scenario_batch ! j) = ''42''"
    by (rule exI [of _ 0], rule exI [of _ 2])
       (simp add: scenario_batch_def is_upsert_def is_delete_def)
  then show ?thesis
    using flush_delete_after_upsert [of Map.empty scenario_batch "''42''"] by blast
qed

lemma upsert_twice: "upsert (upsert t e) e = upsert t e"
  by (auto simp: upsert_def fun_eq_iff map_add_def split: option.splits)

lemma flush_single_upsert: "is_upsert e \<Longrightarrow> flush t [e] = upsert t e"
  by (auto simp: flush_def upsert_group_def delete_group_def is_upsert_def is_delete_def)

text \<open>C4. For an event of operation insert, update or replace, applying the upsert twice
  leaves the target as applying it once does, alone or as a batch of its own; the upsert
  overwrites the columns present in \<open>data\<close> of an existing row and leaves its other columns
  untouched, and inserts \<open>data\<close> under the id when there is no row.\<close>

theorem upsert_idempotent:
  "is_upsert e \<Longrightarrow>
     upsert (upsert t e) e = upsert t e
   \<and> flush (flush t [e]) [e] = flush t [e]
   \<and> (\<forall>r. t (ID e) = Some r \<longrightarrow> upsert t e (ID e) = Some (r ++ data_map e))
   \<and> (t (ID e) = None \<longrightarrow> upsert t e (ID e) = Some (data_map e))
   \<and> (\<forall>r c. t (ID e) = Some r \<and> c \<notin> dom (data_map e) \<longrightarrow>
          (\<exists>r'. upsert t e (ID e) = Some r' \<and> r' c = r c))"
proof (intro conjI allI impI)
  assume u: "is_upsert e"
  show "upsert (upsert t e) e = upsert t e"
    by (rule upsert_twice)
  show "flush (flush t [e]) [e] = flush t [e]"
    using u by (simp add: flush_single_upsert upsert_twice)
  show "upsert t e (ID e) = Some (r ++ data_map e)" if "t (ID e) = Some r" for r
    using that by (simp add: upsert_def)
  show "upsert t e (ID e) = Some (data_map e)" if "t (ID e) = None"
    using that by (simp add: upsert_def)
  show "\<exists>r'. upsert t e (ID e) = Some r' \<and> r' c = r c"
    if "t (ID e) = Some r \<and> c \<notin> dom (data_map e)" for r c
    using that by (simp add: upsert_def map_add_def domIff)
qed

theorem upsert_idempotent_witness:
  "is_upsert scenario_insert
 \<and> upsert (upsert scenario_target scenario_insert) scenario_insert
     = upsert scenario_target scenario_insert
 \<and> flush (flush scenario_target [scenario_insert]) [scenario_insert]
     = flush scenario_target [scenario_insert]
 \<and> (\<exists>r'. upsert scenario_target scenario_insert ''42'' = Some r' \<and> r' ''z'' = Some (BInt 0))"
proof -
  have u: "is_upsert scenario_insert"
    by (simp add: is_upsert_def scenario_insert_def)
  have row: "scenario_target (ID scenario_insert) = Some [''z'' \<mapsto> BInt 0]
      \<and> ''z'' \<notin> dom (data_map scenario_insert)"
    by (simp add: scenario_target_def scenario_insert_def data_map_def)
  have "\<exists>r'. upsert scenario_target scenario_insert (ID scenario_insert) = Some r'
      \<and> r' ''z'' = [''z'' \<mapsto> BInt 0] ''z''"
    using upsert_idempotent [OF u, of scenario_target] row by blast
  then have "\<exists>r'. upsert scenario_target scenario_insert ''42'' = Some r' \<and> r' ''z'' = Some (BInt 0)"
    by (simp add: scenario_insert_def)
  then show ?thesis
    using upsert_idempotent [OF u, of scenario_target] u by simp
qed

section \<open>The field mapper\<close>




















section \<open>The pipeline orchestrator\<close>

text \<open>C6. When the source's or the sink's \<^verbatim>\<open>Connect\<close> returns an error, \<^verbatim>\<open>Run\<close> returns a
  fatal connect error with that cause, and the run made no call that lets events flow: the
  source was not asked to stream and the sink was not asked to write. When the sink's
  \<^verbatim>\<open>Connect\<close> fails, the only calls made are the two \<^verbatim>\<open>Connect\<close> calls.\<close>

theorem Run_connect_failure_fatal:
  "(source_connect a = Some err \<longrightarrow> Run a = (Some (FatalConnectError err), [SourceConnect]))
 \<and> (source_connect a = None \<and> sink_connect a = Some err \<longrightarrow>
      Run a = (Some (FatalConnectError err), [SourceConnect, SinkConnect]))
 \<and> (source_connect a \<noteq> None \<or> sink_connect a \<noteq> None \<longrightarrow>
      (\<exists>cause. fst (Run a) = Some (FatalConnectError cause))
    \<and> SourceRead \<notin> set (snd (Run a)) \<and> SinkWrite \<notin> set (snd (Run a)))"
  by (auto simp: Run_def split: option.splits)

theorem Run_connect_failure_fatal_witness:
  "Run sink_refuses = (Some (FatalConnectError ''connection refused''), [SourceConnect, SinkConnect])
 \<and> SourceRead \<notin> set (snd (Run sink_refuses))"
proof -
  have fails: "source_connect sink_refuses = None \<and> sink_connect sink_refuses = Some ''connection refused''"
    by (simp add: sink_refuses_def)
  then have "source_connect sink_refuses \<noteq> None \<or> sink_connect sink_refuses \<noteq> None"
    by simp
  then show ?thesis
    using Run_connect_failure_fatal [of sink_refuses "''connection refused''"] fails by blast
qed

end
